theory Spec2Isabelle
  imports Complex_Main
begin

section \<open>Numbers, vectors and constants\<close>

text \<open>
  A JavaScript \<open>number\<close> is modelled as a \<open>real\<close>: rounding, \<open>NaN\<close> and the
  infinities are outside the model (the one \<open>Infinity\<close> the code writes, in
  \<open>Weapon.fire\<close>, is modelled as \<open>None\<close>). Counters that the code only ever
  increments from zero are natural numbers.
\<close>

record Vector3 =
  vx :: real
  vy :: real
  vz :: real

definition Vec :: "real \<Rightarrow> real \<Rightarrow> real \<Rightarrow> Vector3" where
  "Vec a b c = \<lparr>vx = a, vy = b, vz = c\<rparr>"

definition v_add :: "Vector3 \<Rightarrow> Vector3 \<Rightarrow> Vector3" where
  "v_add a b = \<lparr>vx = vx a + vx b, vy = vy a + vy b, vz = vz a + vz b\<rparr>"

definition v_subtract :: "Vector3 \<Rightarrow> Vector3 \<Rightarrow> Vector3" where
  "v_subtract a b = \<lparr>vx = vx a - vx b, vy = vy a - vy b, vz = vz a - vz b\<rparr>"

definition v_length :: "Vector3 \<Rightarrow> real" where
  "v_length a = sqrt (vx a * vx a + vy a * vy a + vz a * vz a)"

definition Distance :: "Vector3 \<Rightarrow> Vector3 \<Rightarrow> real" where
  "Distance a b = v_length (v_subtract a b)"

text \<open>\<open>constants.ts\<close>: the entries of \<open>GAME_CONSTANTS\<close> the engine reads.\<close>

definition BODY_DAMAGE :: real where "BODY_DAMAGE = 20"
definition HEADSHOT_DAMAGE :: real where "HEADSHOT_DAMAGE = 30"
definition FIRE_INTERVAL :: real where "FIRE_INTERVAL = 0.2"
definition MAX_HEALTH :: real where "MAX_HEALTH = 100"
definition RESPAWN_DELAY :: real where "RESPAWN_DELAY = 2"
definition WIN_CONDITION_KILLS :: nat where "WIN_CONDITION_KILLS = 10"
definition MATCH_TIME_LIMIT :: real where "MATCH_TIME_LIMIT = 5 * 60"
definition BOT_CHASE_DISTANCE :: real where "BOT_CHASE_DISTANCE = 20"
definition BOT_REACTION_DELAY :: real where "BOT_REACTION_DELAY = 250"
definition ARENA_SIZE :: real where "ARENA_SIZE = 30"

section \<open>Health\<close>

text \<open>
  The class \<open>Health\<close>. Its two callback lists are modelled by the events a call
  emits, in the order the code notifies: \<open>HealthChanged v\<close> for one round of the
  health-change callbacks with argument \<open>v\<close>, \<open>Death\<close> for one round of the death
  callbacks. What the registered callbacks do is applied by the owner of the Health.
\<close>

record Health =
  health :: real
  maxHealth :: real

datatype health_event = HealthChanged real | Death

definition Health_new :: "real \<Rightarrow> Health" where
  "Health_new m = \<lparr>health = m, maxHealth = m\<rparr>"

definition isDead :: "Health \<Rightarrow> bool" where
  "isDead h = (health h \<le> 0)"

definition takeDamage :: "real \<Rightarrow> Health \<Rightarrow> Health \<times> health_event list" where
  "takeDamage amount h =
     (if health h \<le> 0 then (h, [])
      else
        let h' = h\<lparr>health := max 0 (health h - amount)\<rparr>
        in (h', HealthChanged (health h') # (if health h' \<le> 0 then [Death] else [])))"

definition reset :: "Health \<Rightarrow> Health \<times> health_event list" where
  "reset h = (h\<lparr>health := maxHealth h\<rparr>, [HealthChanged (maxHealth h)])"

text \<open>A call sequence on one Health instance, and the states it goes through.\<close>

datatype health_call = TakeDamage real | Reset

fun health_step :: "Health \<Rightarrow> health_call \<Rightarrow> Health \<times> health_event list" where
  "health_step h (TakeDamage a) = takeDamage a h"
| "health_step h Reset = reset h"


fun health_events :: "Health \<Rightarrow> health_call list \<Rightarrow> health_event list" where
  "health_events h [] = []"
| "health_events h (c # cs) =
     snd (health_step h c) @ health_events (fst (health_step h c)) cs"



section \<open>Weapon\<close>

text \<open>
  A mesh of the scene: \<open>mesh_id\<close> stands for the object's identity (what \<open>===\<close>
  compares), \<open>mesh_name\<close> is its \<open>name\<close>.
\<close>

record Mesh =
  mesh_id :: nat
  mesh_name :: string

text \<open>The \<open>PickingInfo\<close> fields that \<open>fire\<close> reads.\<close>

record PickingInfo =
  hit :: bool
  pickedMesh :: "Mesh option"
  distance :: real

text \<open>
  \<open>IDamageable\<close>. The two optional methods are \<open>None\<close> when the object has no
  such method; \<open>getHeadCollider\<close> may also return \<open>null\<close>, the inner \<open>None\<close>.
  \<open>d_health\<close> is the Health that the object's \<open>takeDamage\<close> forwards to, as both
  implementations (Player, Bot) do.
\<close>

record IDamageable =
  getPosition :: Vector3
  getHeadPosition :: "Vector3 option"
  getHeadCollider :: "Mesh option option"
  d_health :: Health

record Weapon =
  lastFireTime :: real
  fireInterval :: real

definition Weapon_new :: Weapon where
  "Weapon_new = \<lparr>lastFireTime = 0, fireInterval = FIRE_INTERVAL * 1000\<rparr>"

text \<open>\<open>canFire\<close>; \<open>now\<close> is what \<open>Date.now()\<close> returns inside the call.\<close>

definition canFire :: "real \<Rightarrow> Weapon \<Rightarrow> bool" where
  "canFire now w = (now - lastFireTime w \<ge> fireInterval w)"

definition weapon_reset :: "Weapon \<Rightarrow> Weapon" where
  "weapon_reset w = w\<lparr>lastFireTime := 0\<rparr>"

text \<open>
  \<open>hit.distance || Infinity\<close>: a distance of 0 is falsy and becomes \<open>Infinity\<close>,
  written \<open>None\<close>. Every comparison the code makes with it is then false.
\<close>

definition hitDistance_of :: "PickingInfo \<Rightarrow> real option" where
  "hitDistance_of p = (if distance p = 0 then None else Some (distance p))"

definition abs_diff_less :: "real option \<Rightarrow> real \<Rightarrow> real \<Rightarrow> bool" where
  "abs_diff_less hdist d tol = (case hdist of None \<Rightarrow> False | Some x \<Rightarrow> \<bar>x - d\<bar> < tol)"

definition od_le :: "real option \<Rightarrow> real \<Rightarrow> bool" where
  "od_le hdist b = (case hdist of None \<Rightarrow> False | Some x \<Rightarrow> x \<le> b)"

text \<open>The first check of \<open>fire\<close>: the picked mesh is the target's head collider.\<close>

definition head_collider_hit :: "IDamageable \<Rightarrow> Mesh \<Rightarrow> bool" where
  "head_collider_hit d m =
     (case getHeadCollider d of
        None \<Rightarrow> False
      | Some None \<Rightarrow> False
      | Some (Some hc) \<Rightarrow> mesh_id m = mesh_id hc)"

text \<open>The second block: the bot mesh or the player's body collider, by name and distance.\<close>

definition body_hit :: "Mesh \<Rightarrow> real option \<Rightarrow> real \<Rightarrow> bool" where
  "body_hit m hdist distanceToTarget =
     (let hitTarget = (mesh_name m = ''bot'' \<and> abs_diff_less hdist distanceToTarget 2.0)
      in if \<not> hitTarget \<and> mesh_name m = ''playerBody''
         then abs_diff_less hdist distanceToTarget 1.5
         else hitTarget)"

text \<open>The distance test that turns a body hit into a headshot.\<close>

definition head_distance_check :: "Vector3 \<Rightarrow> IDamageable \<Rightarrow> real option \<Rightarrow> bool" where
  "head_distance_check origin d hdist =
     (case getHeadPosition d of
        None \<Rightarrow> False
      | Some headPos \<Rightarrow>
          (let headDistance = Distance origin headPos
           in abs_diff_less hdist headDistance 0.3 \<and> od_le hdist (headDistance + 0.2)))"

text \<open>
  What one call of \<open>fire\<close> does: the weapon afterwards, the target afterwards, the
  value returned, the arguments of the call of \<open>damageable.takeDamage\<close> (if any), the
  argument of the call of \<open>onHit\<close> (if any; \<open>onHit\<close> itself is applied by the
  caller), and the events of the target's Health.
\<close>

record fire_result =
  fr_weapon :: Weapon
  fr_target :: "IDamageable option"
  fr_returned :: bool
  fr_takeDamage :: "(real \<times> bool) option"
  fr_onHit :: "bool option"
  fr_events :: "health_event list"

definition no_hit :: "Weapon \<Rightarrow> IDamageable option \<Rightarrow> fire_result" where
  "no_hit w t = \<lparr>fr_weapon = w, fr_target = t, fr_returned = False,
      fr_takeDamage = None, fr_onHit = None, fr_events = []\<rparr>"

text \<open>
  \<open>fire\<close>. \<open>t_check\<close> is the clock read by the call of \<open>canFire\<close>, \<open>t_record\<close>
  the clock stored in \<open>lastFireTime\<close>; \<open>pickWithRay\<close> is the scene's raycast, from
  origin and direction; \<open>has_onHit\<close> says whether the optional callback was passed.
\<close>

definition fire ::
  "real \<Rightarrow> real \<Rightarrow> (Vector3 \<Rightarrow> Vector3 \<Rightarrow> PickingInfo option) \<Rightarrow>
   Vector3 \<Rightarrow> Vector3 \<Rightarrow> IDamageable option \<Rightarrow> bool \<Rightarrow> Weapon \<Rightarrow> fire_result" where
  "fire t_check t_record pickWithRay origin direction damageable has_onHit w =
     (if \<not> canFire t_check w then no_hit w damageable
      else
        let w' = w\<lparr>lastFireTime := t_record\<rparr> in
        case damageable of
          None \<Rightarrow> no_hit w' None
        | Some d \<Rightarrow>
           (case pickWithRay origin direction of
              None \<Rightarrow> no_hit w' (Some d)
            | Some p \<Rightarrow>
               (case pickedMesh p of
                  None \<Rightarrow> no_hit w' (Some d)
                | Some m \<Rightarrow>
                   if \<not> hit p then no_hit w' (Some d)
                   else
                     let distanceToTarget = Distance origin (getPosition d);
                         hdist = hitDistance_of p;
                         headHit = head_collider_hit d m;
                         hitTarget = (headHit \<or> body_hit m hdist distanceToTarget)
                     in
                       if hitTarget then
                         let isHeadshot = (headHit \<or> head_distance_check origin d hdist);
                             damage = (if isHeadshot then HEADSHOT_DAMAGE else BODY_DAMAGE);
                             (h', evs) = takeDamage damage (d_health d)
                         in \<lparr>fr_weapon = w', fr_target = Some (d\<lparr>d_health := h'\<rparr>),
                              fr_returned = True,
                              fr_takeDamage = Some (damage, isHeadshot),
                              fr_onHit = (if has_onHit then Some isHeadshot else None),
                              fr_events = evs\<rparr>
                       else no_hit w' (Some d))))"

section \<open>Player and Bot\<close>

text \<open>
  The fields of \<open>Player\<close> and \<open>Bot\<close> that the match controller and the weapons
  read or write. \<open>p_position\<close> is \<open>camera.position\<close>, \<open>b_position\<close> is
  \<open>mesh.position\<close>; \<open>p_rotationY\<close> and \<open>p_rotationX\<close> are the camera's yaw and
  pitch. The weapon a combatant holds is the object the controller also holds
  (\<open>playerWeapon\<close>, \<open>botWeapon\<close>), so it is stored once, in the controller.
\<close>

record Player =
  p_position :: Vector3
  p_rotationY :: real
  p_rotationX :: real
  p_health :: Health
  p_isDead :: bool
  canControl :: bool
  p_headCollider :: "Mesh option"

datatype BotState = Idle | Chasing | Attacking

record Bot =
  b_position :: Vector3
  b_health :: Health
  b_headCollider :: Mesh
  lastShotTime :: real
  strafeDirection :: real
  strafeChangeTime :: real
  b_state :: BotState

definition player_damageable :: "Player \<Rightarrow> IDamageable" where
  "player_damageable p =
     \<lparr>getPosition = p_position p,
      getHeadPosition = Some (v_add (p_position p) (Vec 0 0.5 0)),
      getHeadCollider = Some (p_headCollider p),
      d_health = p_health p\<rparr>"

definition bot_damageable :: "Bot \<Rightarrow> IDamageable" where
  "bot_damageable b =
     \<lparr>getPosition = b_position b,
      getHeadPosition = Some (v_add (b_position b) (Vec 0 2 0)),
      getHeadCollider = Some (Some (b_headCollider b)),
      d_health = b_health b\<rparr>"

text \<open>
  What \<open>Player.update\<close> computes from the input devices and the camera in one frame
  (mouse look, the WASD displacement, the jump): the camera's position and rotation
  afterwards. The arithmetic itself belongs to the rendering engine and the input
  layer and is not modelled; the gate on \<open>canControl\<close> is.
\<close>

record player_motion =
  pm_position :: Vector3
  pm_rotationY :: real
  pm_rotationX :: real

definition Player_update :: "player_motion \<Rightarrow> Player \<Rightarrow> Player" where
  "Player_update mv p =
     (if \<not> canControl p then p
      else p\<lparr>p_position := pm_position mv,
             p_rotationY := pm_rotationY mv,
             p_rotationX := pm_rotationX mv\<rparr>)"

text \<open>
  What one call of \<open>Bot.update\<close> takes from outside: the clock at the strafe check
  and at the shot check, the strafe direction \<open>Math.random\<close> picks, and the mesh
  position after \<open>moveWithCollisions\<close>.
\<close>

record bot_motion =
  bm_now :: real
  bm_nowTime :: real
  bm_strafeDirection :: real
  bm_position :: Vector3

definition bot_strafe :: "real \<Rightarrow> bot_motion \<Rightarrow> Bot \<Rightarrow> Bot" where
  "bot_strafe period mv b =
     (let b1 = (if bm_now mv - strafeChangeTime b > period
                then b\<lparr>strafeDirection := bm_strafeDirection mv, strafeChangeTime := bm_now mv\<rparr>
                else b)
      in b1\<lparr>b_position := bm_position mv\<rparr>)"

definition chasePlayer :: "bot_motion \<Rightarrow> Bot \<Rightarrow> Bot" where
  "chasePlayer mv b = bot_strafe 2000 mv b"

text \<open>\<open>shootAtPlayer\<close> only computes a direction and drops it: it changes nothing.\<close>

definition attackPlayer :: "bot_motion \<Rightarrow> Bot \<Rightarrow> Bot" where
  "attackPlayer mv b =
     (let b1 = bot_strafe 1500 mv b
      in if bm_nowTime mv - lastShotTime b1 \<ge> BOT_REACTION_DELAY
         then b1\<lparr>lastShotTime := bm_nowTime mv\<rparr>
         else b1)"

definition Bot_update :: "bot_motion \<Rightarrow> Vector3 \<Rightarrow> Bot \<Rightarrow> Bot" where
  "Bot_update mv playerPosition b =
     (if isDead (b_health b) then b
      else
        let distanceToPlayer = Distance (b_position b) playerPosition;
            b1 = b\<lparr>b_state := (if distanceToPlayer \<le> BOT_CHASE_DISTANCE
                                then Attacking else Chasing)\<rparr>
        in if b_state b1 = Chasing then chasePlayer mv b1 else attackPlayer mv b1)"

section \<open>The match controller\<close>

datatype GameState = Waiting | Playing | Respawning | MatchEnded | Paused

datatype Entity = PlayerEntity | BotEntity

record GameStats =
  s_playerKills :: nat
  s_botKills :: nat
  shotsFired :: nat
  shotsHit :: nat
  headshots :: nat
  playerAccuracy :: real
  botAccuracy :: real
  averageLifeDuration :: real

definition zero_stats :: GameStats where
  "zero_stats = \<lparr>s_playerKills = 0, s_botKills = 0, shotsFired = 0, shotsHit = 0,
     headshots = 0, playerAccuracy = 0, botAccuracy = 0, averageLifeDuration = 0\<rparr>"

text \<open>
  \<open>GameManager\<close>. \<open>playerSpawn\<close> and \<open>botSpawn\<close> are the scene's spawn points;
  \<open>lastTime\<close> is the variable of that name in \<open>gameLoop\<close>; \<open>loopScheduled\<close>
  says whether the loop has asked for its next animation frame; \<open>stateChangeLog\<close>
  lists the arguments of the state-change callbacks in the order of the calls of
  \<open>notifyStateChange\<close>. The stats and hit callbacks only feed the display and are
  left out.
\<close>

record GameManager =
  state :: GameState
  matchStartTime :: real
  matchTimeRemaining :: real
  playerKills :: nat
  botKills :: nat
  respawnTimer :: real
  respawningEntity :: "Entity option"
  stats :: GameStats
  lifeStartTime :: real
  gameStartTime :: real
  lifeDurations :: "real list"
  playerShotsFired :: nat
  playerShotsHit :: nat
  botShotsFired :: nat
  botShotsHit :: nat
  player :: Player
  bot :: Bot
  playerWeapon :: Weapon
  botWeapon :: Weapon
  playerSpawn :: Vector3
  botSpawn :: Vector3
  lastTime :: real
  loopScheduled :: bool
  stateChangeLog :: "GameState list"

text \<open>\<open>scene.ts\<close>: the spawn points, and the camera's first position.\<close>

definition scene_playerSpawn :: Vector3 where
  "scene_playerSpawn = Vec (- ARENA_SIZE / 2 + 2) 2 0"

definition scene_botSpawn :: Vector3 where
  "scene_botSpawn = Vec (ARENA_SIZE / 2 - 2) 2 0"

text \<open>
  The constructor: \<open>t1\<close> and \<open>t2\<close> are the two readings of \<open>Date.now()\<close>, \<open>t0\<close>
  is \<open>performance.now()\<close> at the start of \<open>gameLoop\<close>.
\<close>

definition GameManager_new :: "real \<Rightarrow> real \<Rightarrow> real \<Rightarrow> GameManager" where
  "GameManager_new t1 t2 t0 =
     \<lparr>state = Waiting,
      matchStartTime = t1,
      matchTimeRemaining = MATCH_TIME_LIMIT,
      playerKills = 0,
      botKills = 0,
      respawnTimer = 0,
      respawningEntity = None,
      stats = zero_stats,
      lifeStartTime = t2,
      gameStartTime = 0,
      lifeDurations = [],
      playerShotsFired = 0,
      playerShotsHit = 0,
      botShotsFired = 0,
      botShotsHit = 0,
      player = \<lparr>p_position = scene_playerSpawn\<lparr>vy := 1.8\<rparr>,
                p_rotationY = 0, p_rotationX = 0,
                p_health = Health_new MAX_HEALTH,
                p_isDead = False, canControl = True,
                p_headCollider = Some \<lparr>mesh_id = 1, mesh_name = ''playerHead''\<rparr>\<rparr>,
      bot = \<lparr>b_position = scene_botSpawn\<lparr>vy := 1\<rparr>,
             b_health = Health_new MAX_HEALTH,
             b_headCollider = \<lparr>mesh_id = 4, mesh_name = ''botHead''\<rparr>,
             lastShotTime = 0, strafeDirection = 1, strafeChangeTime = 0,
             b_state = Idle\<rparr>,
      playerWeapon = Weapon_new,
      botWeapon = Weapon_new,
      playerSpawn = scene_playerSpawn,
      botSpawn = scene_botSpawn,
      lastTime = t0,
      loopScheduled = True,
      stateChangeLog = []\<rparr>"

definition notifyStateChange :: "GameManager \<Rightarrow> GameManager" where
  "notifyStateChange g = g\<lparr>stateChangeLog := stateChangeLog g @ [state g]\<rparr>"

text \<open>
  \<open>startGame\<close> and \<open>unpause\<close> are asynchronous: they wait for the pointer lock.
  The wait is modelled as over before anything else runs: \<open>granted\<close> is the outcome
  of \<open>requestPointerLock\<close>, \<open>t1\<close>, \<open>t2\<close>, \<open>t3\<close> are the clock readings.
\<close>

definition startGame :: "bool \<Rightarrow> real \<Rightarrow> real \<Rightarrow> real \<Rightarrow> GameManager \<Rightarrow> GameManager" where
  "startGame granted t1 t2 t3 g =
     (if state g \<noteq> Waiting then g
      else if granted then
        notifyStateChange
          (g\<lparr>state := Playing, matchStartTime := t1, lifeStartTime := t2, gameStartTime := t3\<rparr>)
      else g)"

definition pause :: "GameManager \<Rightarrow> GameManager" where
  "pause g =
     notifyStateChange (g\<lparr>state := Paused, player := (player g)\<lparr>canControl := False\<rparr>\<rparr>)"

definition unpause :: "bool \<Rightarrow> GameManager \<Rightarrow> GameManager" where
  "unpause granted g =
     (if state g = Paused then
        (if granted then
           notifyStateChange (g\<lparr>state := Playing, player := (player g)\<lparr>canControl := True\<rparr>\<rparr>)
         else g)
      else g)"

definition isPaused :: "GameManager \<Rightarrow> bool" where
  "isPaused g = (state g = Paused)"

definition updateStats :: "GameManager \<Rightarrow> GameManager" where
  "updateStats g =
     g\<lparr>stats := (stats g)
        \<lparr>playerAccuracy :=
           (if playerShotsFired g > 0
            then (real (playerShotsHit g) / real (playerShotsFired g)) * 100 else 0),
         botAccuracy :=
           (if botShotsFired g > 0
            then (real (botShotsHit g) / real (botShotsFired g)) * 100 else 0),
         averageLifeDuration :=
           (if length (lifeDurations g) > 0
            then foldl (+) 0 (lifeDurations g) / real (length (lifeDurations g))
            else averageLifeDuration (stats g))\<rparr>\<rparr>"

definition startRespawn :: "Entity \<Rightarrow> GameManager \<Rightarrow> GameManager" where
  "startRespawn entity g =
     notifyStateChange
       (g\<lparr>state := Respawning, respawningEntity := Some entity,
          respawnTimer := RESPAWN_DELAY\<rparr>)"

text \<open>\<open>handlePlayerDeath\<close>; \<open>t\<close> is its reading of \<open>Date.now()\<close>.\<close>

definition handlePlayerDeath :: "real \<Rightarrow> GameManager \<Rightarrow> GameManager" where
  "handlePlayerDeath t g =
     startRespawn PlayerEntity
       (g\<lparr>lifeDurations := lifeDurations g @ [(t - lifeStartTime g) / 1000],
          botKills := botKills g + 1,
          stats := (stats g)\<lparr>s_botKills := botKills g + 1\<rparr>\<rparr>)"

definition handleBotDeath :: "GameManager \<Rightarrow> GameManager" where
  "handleBotDeath g =
     startRespawn BotEntity
       (g\<lparr>playerKills := playerKills g + 1,
          stats := (stats g)\<lparr>s_playerKills := playerKills g + 1\<rparr>\<rparr>)"

definition endMatch :: "GameManager \<Rightarrow> GameManager" where
  "endMatch g =
     notifyStateChange
       (updateStats (g\<lparr>state := MatchEnded, player := (player g)\<lparr>canControl := False\<rparr>\<rparr>))"

text \<open>\<open>Player.respawn\<close> and \<open>Bot.respawn\<close>, with the reset of the weapon they hold.\<close>

definition player_respawn :: "Vector3 \<Rightarrow> GameManager \<Rightarrow> GameManager" where
  "player_respawn spawnPoint g =
     g\<lparr>player := (player g)
          \<lparr>p_position := spawnPoint\<lparr>vy := 1.8\<rparr>,
           p_rotationY := 0, p_rotationX := 0,
           p_health := fst (reset (p_health (player g))),
           p_isDead := False, canControl := True\<rparr>,
       playerWeapon := weapon_reset (playerWeapon g)\<rparr>"

definition bot_respawn :: "Vector3 \<Rightarrow> GameManager \<Rightarrow> GameManager" where
  "bot_respawn spawnPoint g =
     g\<lparr>bot := (bot g)
          \<lparr>b_position := spawnPoint,
           b_health := fst (reset (b_health (bot g))),
           lastShotTime := 0, b_state := Idle\<rparr>,
       botWeapon := weapon_reset (botWeapon g)\<rparr>"

text \<open>\<open>restart\<close>; \<open>t1\<close> and \<open>t2\<close> are its two readings of \<open>Date.now()\<close>.\<close>

definition restart :: "real \<Rightarrow> real \<Rightarrow> GameManager \<Rightarrow> GameManager" where
  "restart t1 t2 g =
     (let g1 = g\<lparr>state := Waiting, matchStartTime := t1,
                 matchTimeRemaining := MATCH_TIME_LIMIT,
                 playerKills := 0, botKills := 0,
                 respawnTimer := 0, respawningEntity := None,
                 stats := zero_stats,
                 lifeStartTime := t2, lifeDurations := [],
                 playerShotsFired := 0, playerShotsHit := 0,
                 botShotsFired := 0, botShotsHit := 0\<rparr>;
          g2 = player_respawn (playerSpawn g1) g1;
          g3 = bot_respawn (botSpawn g2) g2
      in notifyStateChange g3)"

section \<open>The game loop\<close>

text \<open>
  Everything one run of \<open>loop\<close> takes from outside the controller: the frame's
  timestamp, the readings of \<open>Date.now()\<close> in the order the code makes them, the
  input devices, the outcome of a pointer-lock request made in this frame, the motion
  of the two combatants, the direction of the player's view and of the bot's shot
  (\<open>getShootDirection\<close> draws it with \<open>Math.random\<close>), and the scene's raycast.
\<close>

record frame_input =
  currentTime :: real
  dateNow :: real
  escapePressed :: bool
  lockGranted :: bool
  mousePressed :: bool
  playerMotion :: player_motion
  botMotion :: bot_motion
  t_playerCanFire :: real
  t_playerFireCheck :: real
  t_playerFireRecord :: real
  playerForward :: Vector3
  t_botCanFire :: real
  t_botFireCheck :: real
  t_botFireRecord :: real
  botShootDirection :: Vector3
  t_playerDeath :: real
  t_respawn :: real
  pickWithRay :: "Vector3 \<Rightarrow> Vector3 \<Rightarrow> PickingInfo option"

text \<open>The calls a frame makes on the combatants and the weapons, in order.\<close>

datatype action = PlayerUpdate | BotUpdate | PlayerFire | BotFire

text \<open>The callback the loop passes to \<open>playerWeapon.fire\<close>.\<close>

definition player_onHit :: "bool \<Rightarrow> GameManager \<Rightarrow> GameManager" where
  "player_onHit isHeadshot g =
     (let g1 = (if isHeadshot
                then g\<lparr>stats := (stats g)\<lparr>headshots := headshots (stats g) + 1\<rparr>\<rparr>
                else g)
      in g1\<lparr>playerShotsHit := playerShotsHit g1 + 1,
            stats := (stats g1)\<lparr>shotsHit := shotsHit (stats g1) + 1\<rparr>\<rparr>)"

text \<open>The callback the loop passes to \<open>botWeapon.fire\<close>.\<close>

definition bot_onHit :: "GameManager \<Rightarrow> GameManager" where
  "bot_onHit g = g\<lparr>botShotsHit := botShotsHit g + 1\<rparr>"

text \<open>
  The player's shot: the body of the loop's first \<open>if\<close>. Within \<open>fire\<close> the
  bot's Health runs its death callbacks (\<open>handleBotDeath\<close>; the bot's own callback
  is empty) before \<open>onHit\<close> is called.
\<close>

definition playerFire :: "frame_input \<Rightarrow> GameManager \<Rightarrow> GameManager" where
  "playerFire inp g =
     (let g1 = g\<lparr>playerShotsFired := playerShotsFired g + 1,
                 stats := (stats g)\<lparr>shotsFired := shotsFired (stats g) + 1\<rparr>\<rparr>;
          r = fire (t_playerFireCheck inp) (t_playerFireRecord inp) (pickWithRay inp)
                (p_position (player g1)) (playerForward inp)
                (Some (bot_damageable (bot g1))) True (playerWeapon g1);
          g2 = g1\<lparr>playerWeapon := fr_weapon r,
                   bot := (case fr_target r of
                             None \<Rightarrow> bot g1
                           | Some d \<Rightarrow> (bot g1)\<lparr>b_health := d_health d\<rparr>)\<rparr>;
          g3 = (if Death \<in> set (fr_events r) then handleBotDeath g2 else g2)
      in case fr_onHit r of None \<Rightarrow> g3 | Some isHeadshot \<Rightarrow> player_onHit isHeadshot g3)"

definition playerShoot :: "frame_input \<Rightarrow> GameManager \<Rightarrow> GameManager \<times> action list" where
  "playerShoot inp g =
     (if mousePressed inp \<and> canFire (t_playerCanFire inp) (playerWeapon g)
      then (playerFire inp g, [PlayerFire])
      else (g, []))"

text \<open>
  The bot's shot: the body of the inner \<open>if\<close>. The player's Health runs the
  player's own death callback (\<open>isDead\<close>, \<open>canControl\<close>) and then
  \<open>handlePlayerDeath\<close>.
\<close>

definition botFire :: "frame_input \<Rightarrow> GameManager \<Rightarrow> GameManager" where
  "botFire inp g =
     (let g1 = g\<lparr>botShotsFired := botShotsFired g + 1\<rparr>;
          r = fire (t_botFireCheck inp) (t_botFireRecord inp) (pickWithRay inp)
                (b_position (bot g1)) (botShootDirection inp)
                (Some (player_damageable (player g1))) True (botWeapon g1);
          g2 = g1\<lparr>botWeapon := fr_weapon r,
                   player := (case fr_target r of
                                None \<Rightarrow> player g1
                              | Some d \<Rightarrow> (player g1)\<lparr>p_health := d_health d\<rparr>)\<rparr>;
          g3 = (if Death \<in> set (fr_events r)
                then handlePlayerDeath (t_playerDeath inp)
                       (g2\<lparr>player := (player g2)\<lparr>p_isDead := True, canControl := False\<rparr>\<rparr>)
                else g2)
      in case fr_onHit r of None \<Rightarrow> g3 | Some isHeadshot \<Rightarrow> bot_onHit g3)"

text \<open>The bot's shot, with the grace period of 2 seconds and the range test.\<close>

definition botShoot :: "frame_input \<Rightarrow> GameManager \<Rightarrow> GameManager \<times> action list" where
  "botShoot inp g =
     (let timeSinceStart = (dateNow inp - gameStartTime g) / 1000;
          gracePeriod = 2
      in
      if canFire (t_botCanFire inp) (botWeapon g) \<and>
         \<not> isDead (b_health (bot g)) \<and>
         \<not> isDead (p_health (player g)) \<and>
         timeSinceStart \<ge> gracePeriod
      then
        let distance = v_length (v_subtract (b_position (bot g)) (p_position (player g)))
        in if distance \<le> BOT_CHASE_DISTANCE
           then (botFire inp g, [BotFire])
           else (g, [])
      else (g, []))"

text \<open>
  The win conditions, as the loop tests them after it has updated the match timer.
\<close>

definition win_condition :: "GameManager \<Rightarrow> bool" where
  "win_condition g =
     (playerKills g \<ge> WIN_CONDITION_KILLS \<or> botKills g \<ge> WIN_CONDITION_KILLS \<or>
      matchTimeRemaining g \<le> 0)"

text \<open>The blocks of the branch for the state \<open>playing\<close>, in the loop's order.\<close>

definition updateMatchTimer :: "frame_input \<Rightarrow> GameManager \<Rightarrow> GameManager" where
  "updateMatchTimer inp g =
     (let elapsed = (dateNow inp - matchStartTime g) / 1000
      in g\<lparr>matchTimeRemaining := max 0 (MATCH_TIME_LIMIT - elapsed)\<rparr>)"

definition updateEntities :: "frame_input \<Rightarrow> GameManager \<Rightarrow> GameManager" where
  "updateEntities inp g =
     (let g1 = g\<lparr>player := Player_update (playerMotion inp) (player g)\<rparr>
      in g1\<lparr>bot := Bot_update (botMotion inp) (p_position (player g1)) (bot g1)\<rparr>)"

definition combat_tick :: "frame_input \<Rightarrow> GameManager \<Rightarrow> GameManager \<times> action list" where
  "combat_tick inp g =
     (let g1 = updateEntities inp g;
          (g2, a1) = playerShoot inp g1;
          (g3, a2) = botShoot inp g2
      in (updateStats g3, [PlayerUpdate, BotUpdate] @ a1 @ a2))"

text \<open>
  The branch of the loop for the state \<open>playing\<close>. After \<open>endMatch\<close> the loop
  returns without asking for another animation frame.
\<close>

definition playing_tick :: "frame_input \<Rightarrow> GameManager \<Rightarrow> GameManager \<times> action list" where
  "playing_tick inp g =
     (let g1 = updateMatchTimer inp g
      in
      if playerKills g1 \<ge> WIN_CONDITION_KILLS then
        ((endMatch g1)\<lparr>loopScheduled := False\<rparr>, [])
      else if botKills g1 \<ge> WIN_CONDITION_KILLS then
        ((endMatch g1)\<lparr>loopScheduled := False\<rparr>, [])
      else if matchTimeRemaining g1 \<le> 0 then
        ((endMatch g1)\<lparr>loopScheduled := False\<rparr>, [])
      else combat_tick inp g1)"

text \<open>The branch for the state \<open>respawning\<close>.\<close>

definition respawning_tick :: "frame_input \<Rightarrow> real \<Rightarrow> GameManager \<Rightarrow> GameManager" where
  "respawning_tick inp deltaTime g =
     (let g1 = g\<lparr>respawnTimer := respawnTimer g - deltaTime\<rparr>
      in
      if respawnTimer g1 \<le> 0 then
        let g2 = (case respawningEntity g1 of
                    Some PlayerEntity \<Rightarrow>
                      (player_respawn (playerSpawn g1) g1)\<lparr>lifeStartTime := t_respawn inp\<rparr>
                  | Some BotEntity \<Rightarrow> bot_respawn (botSpawn g1) g1
                  | None \<Rightarrow> g1)
        in notifyStateChange (g2\<lparr>state := Playing, respawningEntity := None\<rparr>)
      else g1)"

text \<open>
  One run of \<open>loop\<close>. The Escape key is handled first. A call of \<open>unpause\<close> made
  here resumes only after the frame; in the state \<open>paused\<close> the rest of the frame
  does nothing, so its effect is applied at once.
\<close>

definition loop :: "frame_input \<Rightarrow> GameManager \<Rightarrow> GameManager \<times> action list" where
  "loop inp g =
     (let deltaTime = min ((currentTime inp - lastTime g) / 1000) 0.1;
          g0 = g\<lparr>lastTime := currentTime inp\<rparr>
      in
      if escapePressed inp \<and> state g0 = Playing then (pause g0, [])
      else if escapePressed inp \<and> state g0 = Paused then (unpause (lockGranted inp) g0, [])
      else
        (case state g0 of
           Playing \<Rightarrow> playing_tick inp g0
         | Paused \<Rightarrow> (g0, [])
         | Respawning \<Rightarrow> (respawning_tick inp deltaTime g0, [])
         | Waiting \<Rightarrow> (g0, [])
         | MatchEnded \<Rightarrow> (g0, [])))"

text \<open>An animation frame runs \<open>loop\<close> only if the loop asked for it.\<close>

definition frame :: "frame_input \<Rightarrow> GameManager \<Rightarrow> GameManager \<times> action list" where
  "frame inp g = (if loopScheduled g then loop inp g else (g, []))"

section \<open>The application around the controller\<close>

text \<open>
  \<open>EndScreen\<close> shows its Restart button, the only caller of \<open>restart\<close>, while its
  \<open>visible\<close> flag is set; the flag starts false and the state-change callback sets
  it to whether the state it is given is \<open>matchEnded\<close>.
\<close>

definition EndScreen_visible :: "GameManager \<Rightarrow> bool" where
  "EndScreen_visible g =
     (if stateChangeLog g = [] then False else last (stateChangeLog g) = MatchEnded)"

text \<open>
  What can happen to a running application (\<open>App.tsx\<close>): a click on Start, an
  animation frame, a click on the canvas (which calls \<open>unpause\<close> when the game is
  paused), a click on Restart. The flag \<open>gameStarted\<close> that hides the Start screen
  is left out: a click on Start always reaches \<open>startGame\<close>, which has its own
  guard. A click on Restart reaches \<open>restart\<close> only while the button is shown.
\<close>

datatype event =
    ClickStart bool real real real
  | AnimationFrame frame_input
  | CanvasClick bool
  | ClickRestart real real

fun app_step :: "GameManager \<Rightarrow> event \<Rightarrow> GameManager \<times> action list" where
  "app_step g (ClickStart granted t1 t2 t3) = (startGame granted t1 t2 t3 g, [])"
| "app_step g (AnimationFrame inp) = frame inp g"
| "app_step g (CanvasClick granted) = ((if isPaused g then unpause granted g else g), [])"
| "app_step g (ClickRestart t1 t2) = ((if EndScreen_visible g then restart t1 t2 g else g), [])"

fun app_run :: "GameManager \<Rightarrow> event list \<Rightarrow> GameManager" where
  "app_run g [] = g"
| "app_run g (e # es) = app_run (fst (app_step g e)) es"


text \<open>
  The controller's own interface, used in any state: its public methods
  \<open>startGame\<close>, \<open>unpause\<close> and \<open>restart\<close>, and the animation frame of its loop.
\<close>

datatype call =
    StartGame bool real real real
  | Frame frame_input
  | Unpause bool
  | Restart real real

fun api_step :: "GameManager \<Rightarrow> call \<Rightarrow> GameManager \<times> action list" where
  "api_step g (StartGame granted t1 t2 t3) = (startGame granted t1 t2 t3 g, [])"
| "api_step g (Frame inp) = frame inp g"
| "api_step g (Unpause granted) = (unpause granted g, [])"
| "api_step g (Restart t1 t2) = (restart t1 t2 g, [])"

text \<open>The edges of the match state machine, as the specification lists them.\<close>

fun listed_edge :: "GameState \<Rightarrow> GameState \<Rightarrow> bool" where
  "listed_edge Waiting Playing = True"
| "listed_edge Playing Paused = True"
| "listed_edge Paused Playing = True"
| "listed_edge Playing Respawning = True"
| "listed_edge Respawning Playing = True"
| "listed_edge Playing MatchEnded = True"
| "listed_edge MatchEnded Waiting = True"
| "listed_edge _ _ = False"


section \<open>Notions used to state the properties\<close>

text \<open>
  The display is in step with the controller: the last state the callbacks were given
  is the current state (before any notification the state is \<open>waiting\<close>).
\<close>

definition notified_in_step :: "GameManager \<Rightarrow> bool" where
  "notified_in_step g =
     (if stateChangeLog g = [] then state g = Waiting
      else last (stateChangeLog g) = state g)"


text \<open>
  A win condition holds for a tick whose clock reads \<open>t\<close>: the test the loop makes,
  on the match time it computes from \<open>t\<close>.
\<close>

definition win_at :: "real \<Rightarrow> GameManager \<Rightarrow> bool" where
  "win_at t g =
     (playerKills g \<ge> WIN_CONDITION_KILLS \<or> botKills g \<ge> WIN_CONDITION_KILLS \<or>
      max 0 (MATCH_TIME_LIMIT - (t - matchStartTime g) / 1000) \<le> 0)"



text \<open>Hits never exceed shots, and the accuracies are percentages.\<close>

definition shots_consistent :: "GameManager \<Rightarrow> bool" where
  "shots_consistent g =
     (playerShotsHit g \<le> playerShotsFired g \<and> botShotsHit g \<le> botShotsFired g \<and>
      0 \<le> playerAccuracy (stats g) \<and> playerAccuracy (stats g) \<le> 100 \<and>
      0 \<le> botAccuracy (stats g) \<and> botAccuracy (stats g) \<le> 100)"

text \<open>
  A frame in which no key or button is pressed, nothing moves and every ray misses;
  \<open>ct\<close> is the frame's timestamp, \<open>t\<close> what every \<open>Date.now()\<close> returns.
\<close>

definition quiet_frame :: "real \<Rightarrow> real \<Rightarrow> Player \<Rightarrow> Bot \<Rightarrow> frame_input" where
  "quiet_frame ct t p b =
     \<lparr>currentTime = ct, dateNow = t, escapePressed = False, lockGranted = False,
      mousePressed = False,
      playerMotion = \<lparr>pm_position = p_position p, pm_rotationY = p_rotationY p,
                      pm_rotationX = p_rotationX p\<rparr>,
      botMotion = \<lparr>bm_now = t, bm_nowTime = t, bm_strafeDirection = 1,
                   bm_position = b_position b\<rparr>,
      t_playerCanFire = t, t_playerFireCheck = t, t_playerFireRecord = t,
      playerForward = Vec 0 0 1,
      t_botCanFire = t, t_botFireCheck = t, t_botFireRecord = t,
      botShootDirection = Vec (- 1) 0 0,
      t_playerDeath = t, t_respawn = t,
      pickWithRay = (\<lambda>origin direction. None)\<rparr>"

section \<open>Properties of Health\<close>






lemma takeDamage_dead: "health h \<le> 0 \<Longrightarrow> takeDamage a h = (h, [])"
  by (simp add: takeDamage_def)






lemma takeDamage_death_count:
  "count_list (snd (takeDamage a h)) Death =
     (if 0 < health h \<and> health (fst (takeDamage a h)) \<le> 0 then 1 else 0)"
  by (simp add: takeDamage_def Let_def)

lemma health_events_dead:
  "health h \<le> 0 \<Longrightarrow> Reset \<notin> set cs \<Longrightarrow> health_events h cs = []"
proof (induction cs)
  case Nil
  then show ?case by simp
next
  case (Cons c cs)
  then show ?case by (cases c) (simp_all add: takeDamage_dead)
qed

lemma health_events_one_death:
  "Reset \<notin> set cs \<Longrightarrow> count_list (health_events h cs) Death \<le> 1"
proof (induction cs arbitrary: h)
  case Nil
  then show ?case by simp
next
  case (Cons c cs)
  then obtain a where c: "c = TakeDamage a" by (cases c) auto
  show ?case
  proof (cases "health (fst (takeDamage a h)) \<le> 0")
    case True
    then have "health_events (fst (takeDamage a h)) cs = []"
      using Cons.prems by (simp add: health_events_dead)
    then show ?thesis
      by (simp add: c takeDamage_death_count)
  next
    case False
    then have "count_list (snd (takeDamage a h)) Death = 0"
      by (simp add: takeDamage_death_count)
    moreover have "count_list (health_events (fst (takeDamage a h)) cs) Death \<le> 1"
      using Cons by simp
    ultimately show ?thesis by (simp add: c)
  qed
qed

text \<open>
  C6: \<open>takeDamage\<close> on a Health whose current value is already \<open>\<le> 0\<close>
  changes nothing and notifies nobody; with health at 25, \<open>takeDamage(30)\<close> sets the value
  to 0, makes \<open>isDead()\<close> true and notifies the health change and then the death,
  once; a call notifies the death once exactly when it takes the Health from alive to
  dead and never otherwise, so over any calls without a \<open>reset\<close> the death is
  notified at most once.
\<close>

theorem takeDamage_dead_noop_single_death:
  "(health h \<le> 0 \<longrightarrow> takeDamage a h = (h, [])) \<and>
   takeDamage 30 \<lparr>health = 25, maxHealth = 100\<rparr>
     = (\<lparr>health = 0, maxHealth = 100\<rparr>, [HealthChanged 0, Death]) \<and>
   isDead (fst (takeDamage 30 \<lparr>health = 25, maxHealth = 100\<rparr>)) \<and>
   count_list (snd (takeDamage a h)) Death =
     (if 0 < health h \<and> isDead (fst (takeDamage a h)) then 1 else 0) \<and>
   (Reset \<notin> set cs \<longrightarrow> count_list (health_events h cs) Death \<le> 1)"
proof (intro conjI)
  show "health h \<le> 0 \<longrightarrow> takeDamage a h = (h, [])"
    by (simp add: takeDamage_dead)
  show "takeDamage 30 \<lparr>health = 25, maxHealth = 100\<rparr>
     = (\<lparr>health = 0, maxHealth = 100\<rparr>, [HealthChanged 0, Death])"
    by (simp add: takeDamage_def)
  then show "isDead (fst (takeDamage 30 \<lparr>health = 25, maxHealth = 100\<rparr>))"
    by (simp add: isDead_def)
  show "count_list (snd (takeDamage a h)) Death =
     (if 0 < health h \<and> isDead (fst (takeDamage a h)) then 1 else 0)"
    unfolding isDead_def by (rule takeDamage_death_count)
  show "Reset \<notin> set cs \<longrightarrow> count_list (health_events h cs) Death \<le> 1"
    using health_events_one_death by blast
qed

text \<open>Witness for C6: a dead Health ignores damage; three lethal hits, one death.\<close>

theorem takeDamage_dead_noop_single_death_witness:
  "takeDamage 30 \<lparr>health = 0, maxHealth = 100\<rparr> = (\<lparr>health = 0, maxHealth = 100\<rparr>, []) \<and>
   count_list (health_events \<lparr>health = 25, maxHealth = 100\<rparr>
      [TakeDamage 30, TakeDamage 20, TakeDamage 30]) Death \<le> 1"
proof -
  have "Reset \<notin> set [TakeDamage 30, TakeDamage 20, TakeDamage 30]" by simp
  moreover have "health \<lparr>health = 0, maxHealth = 100\<rparr> \<le> 0" by simp
  ultimately show ?thesis
    using takeDamage_dead_noop_single_death [of "\<lparr>health = 0, maxHealth = 100\<rparr>" 30 "[]"]
        takeDamage_dead_noop_single_death [of "\<lparr>health = 25, maxHealth = 100\<rparr>" 30 "[TakeDamage 30, TakeDamage 20, TakeDamage 30]"]
    by blast
qed

section \<open>Properties of Weapon\<close>

lemma fire_not_ready:
  "\<not> canFire tc w \<Longrightarrow> fire tc tr pick origin dir d cb w = no_hit w d"
  by (simp add: fire_def)

lemma fire_fireInterval:
  "fireInterval (fr_weapon (fire tc tr pick origin dir d cb w)) = fireInterval w"
  by (simp add: fire_def no_hit_def Let_def split: option.splits prod.splits)

lemma fire_lastFireTime:
  "canFire tc w \<Longrightarrow> lastFireTime (fr_weapon (fire tc tr pick origin dir d cb w)) = tr"
  by (simp add: fire_def no_hit_def Let_def split: option.splits prod.splits)

lemma fire_no_target:
  "canFire tc w \<Longrightarrow> fire tc tr pick origin dir None cb w = no_hit (w\<lparr>lastFireTime := tr\<rparr>) None"
  by (simp add: fire_def)

lemma fire_twice_within_interval:
  assumes "canFire tc w" "tc2 - tr < fireInterval w"
  shows "fire tc2 tr2 pick2 origin2 dir2 tgt cb2 (fr_weapon (fire tc tr pick origin dir d cb w))
         = no_hit (fr_weapon (fire tc tr pick origin dir d cb w)) tgt"
proof -
  let ?w1 = "fr_weapon (fire tc tr pick origin dir d cb w)"
  have "lastFireTime ?w1 = tr" "fireInterval ?w1 = fireInterval w"
    using assms by (simp_all add: fire_lastFireTime fire_fireInterval)
  then have "\<not> canFire tc2 ?w1"
    using assms by (simp add: canFire_def)
  then show ?thesis
    by (rule fire_not_ready)
qed







text \<open>
  C4, as stated, fails: when \<open>canFire()\<close> is false, \<open>fire\<close> returns before the
  assignment to \<open>lastFireTime\<close>. A weapon last fired at 1000 and fired again at 1100
  keeps the timestamp 1000.
\<close>

theorem fire_not_ready_keeps_timestamp_counterexample:
  "\<not> canFire 1100 \<lparr>lastFireTime = 1000, fireInterval = 200\<rparr> \<and>
   lastFireTime (fr_weapon (fire 1100 1100 (\<lambda>origin direction. None) (Vec 0 0 0) (Vec 0 0 1)
       None False \<lparr>lastFireTime = 1000, fireInterval = 200\<rparr>)) = 1000"
  by (simp add: canFire_def fire_def no_hit_def)

text \<open>
  C4 (amended): if \<open>canFire()\<close> is false, \<open>fire\<close> returns false, applies no damage
  and leaves the weapon, its timestamp included, unchanged; if \<open>canFire()\<close> is true
  and the target is absent, \<open>fire\<close> returns false, applies no damage and records the
  timestamp (a dry fire); every call that passes \<open>canFire()\<close> records the timestamp,
  whatever the outcome.
\<close>

theorem fire_dry_fire_timestamp:
  "(\<not> canFire tc w \<longrightarrow>
      fire tc tr pick origin dir d cb w =
        \<lparr>fr_weapon = w, fr_target = d, fr_returned = False,
         fr_takeDamage = None, fr_onHit = None, fr_events = []\<rparr>) \<and>
   (canFire tc w \<longrightarrow>
      fire tc tr pick origin dir None cb w =
        \<lparr>fr_weapon = w\<lparr>lastFireTime := tr\<rparr>, fr_target = None, fr_returned = False,
         fr_takeDamage = None, fr_onHit = None, fr_events = []\<rparr>) \<and>
   (canFire tc w \<longrightarrow> lastFireTime (fr_weapon (fire tc tr pick origin dir d cb w)) = tr)"
  by (simp add: fire_not_ready fire_no_target fire_lastFireTime no_hit_def)

text \<open>Witness for C4: the same weapon fired too early at 1100 and in time at 1200.\<close>

theorem fire_dry_fire_timestamp_witness:
  "lastFireTime (fr_weapon (fire 1100 1100 (\<lambda>origin direction. None) (Vec 0 0 0) (Vec 0 0 1)
       None False \<lparr>lastFireTime = 1000, fireInterval = 200\<rparr>)) = 1000 \<and>
   lastFireTime (fr_weapon (fire 1200 1201 (\<lambda>origin direction. None) (Vec 0 0 0) (Vec 0 0 1)
       None False \<lparr>lastFireTime = 1000, fireInterval = 200\<rparr>)) = 1201"
  using fire_dry_fire_timestamp [of 1100 "\<lparr>lastFireTime = 1000, fireInterval = 200\<rparr>" 1100
               "\<lambda>origin direction. None" "Vec 0 0 0" "Vec 0 0 1" None False]
        fire_dry_fire_timestamp [of 1200 "\<lparr>lastFireTime = 1000, fireInterval = 200\<rparr>" 1201
               "\<lambda>origin direction. None" "Vec 0 0 0" "Vec 0 0 1" None False]
  by (simp add: canFire_def)

text \<open>
  C5: the constructor sets the fire interval to 200 ms (0.2 s times 1000) and neither
  \<open>fire\<close> nor \<open>reset\<close> changes it; \<open>canFire()\<close> is true exactly when the clock minus
  the last recorded fire time is at least 200; so when a first \<open>fire\<close> passes
  \<open>canFire()\<close> and records time \<open>tr\<close>, a second \<open>fire\<close> whose clock is less than
  200 ms later (100 ms, say) returns false, applies no damage and changes nothing.
\<close>

theorem canFire_iff_interval_elapsed:
  "fireInterval Weapon_new = 200 \<and>
   fireInterval (fr_weapon (fire tc tr pick origin dir d cb w)) = fireInterval w \<and>
   fireInterval (weapon_reset w) = fireInterval w \<and>
   (fireInterval w = 200 \<longrightarrow> (canFire now w \<longleftrightarrow> now - lastFireTime w \<ge> 200)) \<and>
   (fireInterval w = 200 \<and> canFire tc w \<and> tc2 - tr < 200 \<longrightarrow>
      (let r1 = fire tc tr pick origin dir d cb w;
           r2 = fire tc2 tr2 pick2 origin2 dir2 (fr_target r1) cb2 (fr_weapon r1)
       in fr_returned r2 = False \<and> fr_takeDamage r2 = None \<and> fr_onHit r2 = None \<and>
          fr_events r2 = [] \<and> fr_target r2 = fr_target r1 \<and> fr_weapon r2 = fr_weapon r1))"
proof (intro conjI impI)
  show "fireInterval Weapon_new = 200"
    by (simp add: Weapon_new_def FIRE_INTERVAL_def)
  show "fireInterval (fr_weapon (fire tc tr pick origin dir d cb w)) = fireInterval w"
    by (rule fire_fireInterval)
  show "fireInterval (weapon_reset w) = fireInterval w"
    by (simp add: weapon_reset_def)
  show "canFire now w \<longleftrightarrow> now - lastFireTime w \<ge> 200" if "fireInterval w = 200"
    using that by (simp add: canFire_def)
  show "let r1 = fire tc tr pick origin dir d cb w;
           r2 = fire tc2 tr2 pick2 origin2 dir2 (fr_target r1) cb2 (fr_weapon r1)
       in fr_returned r2 = False \<and> fr_takeDamage r2 = None \<and> fr_onHit r2 = None \<and>
          fr_events r2 = [] \<and> fr_target r2 = fr_target r1 \<and> fr_weapon r2 = fr_weapon r1"
    if "fireInterval w = 200 \<and> canFire tc w \<and> tc2 - tr < 200"
  proof -
    have "fire tc2 tr2 pick2 origin2 dir2 (fr_target (fire tc tr pick origin dir d cb w)) cb2
            (fr_weapon (fire tc tr pick origin dir d cb w))
          = no_hit (fr_weapon (fire tc tr pick origin dir d cb w))
              (fr_target (fire tc tr pick origin dir d cb w))"
      using that by (intro fire_twice_within_interval) simp_all
    then show ?thesis
      unfolding Let_def by (simp only: no_hit_def fire_result.simps simp_thms)
  qed
qed

text \<open>Witness for C5: a new weapon fired at 5000 and again at 5100.\<close>

theorem canFire_iff_interval_elapsed_witness:
  "fr_returned (fire 5100 5100 (\<lambda>origin direction. None) (Vec 0 0 0) (Vec 0 0 1) None False
      (fr_weapon (fire 5000 5000 (\<lambda>origin direction. None) (Vec 0 0 0) (Vec 0 0 1) None False
         Weapon_new))) = False"
proof -
  have a: "fireInterval Weapon_new = 200 \<and> canFire 5000 Weapon_new \<and> (5100::real) - 5000 < 200"
    by (simp add: Weapon_new_def FIRE_INTERVAL_def canFire_def)
  have t: "fr_target (fire 5000 5000 (\<lambda>origin direction. None) (Vec 0 0 0) (Vec 0 0 1) None False
         Weapon_new) = None"
    by (simp add: fire_def no_hit_def)
  show ?thesis
    using a t canFire_iff_interval_elapsed [of 5000 5000 "\<lambda>origin direction. None" "Vec 0 0 0" "Vec 0 0 1" None False
                 Weapon_new 0 5100 5100 "\<lambda>origin direction. None" "Vec 0 0 0" "Vec 0 0 1" False]
    by (simp add: Let_def)
qed



section \<open>Properties of the match controller\<close>

text \<open>
  C8, as stated, fails for the player: \<open>Player.respawn\<close> puts the camera at the
  spawn point's x and z but at the eye level y = 1.8, and the player's spawn point has
  y = 2. After a restart the player's position is not the player's spawn point.
\<close>

theorem restart_player_not_at_spawn_counterexample:
  "p_position (player (restart 0 0 (GameManager_new 0 0 0))) \<noteq> playerSpawn (GameManager_new 0 0 0)"
  by (simp add: restart_def GameManager_new_def player_respawn_def bot_respawn_def
      notifyStateChange_def Let_def scene_playerSpawn_def Vec_def)

text \<open>
  C8 (amended): \<open>restart\<close> sets the state to \<open>waiting\<close>; resets the kill counts,
  the shots fired and hit of both sides, the headshot count, the computed accuracies
  and the life-duration history to zero or empty, which are the values the constructor
  gives them; puts the bot at its spawn point, and the player at its spawn point's x
  and z at the eye level y = 1.8.
\<close>

theorem restart_resets_match:
  "state (restart t1 t2 g) = Waiting \<and>
   playerKills (restart t1 t2 g) = 0 \<and> botKills (restart t1 t2 g) = 0 \<and>
   playerShotsFired (restart t1 t2 g) = 0 \<and> playerShotsHit (restart t1 t2 g) = 0 \<and>
   botShotsFired (restart t1 t2 g) = 0 \<and> botShotsHit (restart t1 t2 g) = 0 \<and>
   stats (restart t1 t2 g) =
     \<lparr>s_playerKills = 0, s_botKills = 0, shotsFired = 0, shotsHit = 0, headshots = 0,
      playerAccuracy = 0, botAccuracy = 0, averageLifeDuration = 0\<rparr> \<and>
   lifeDurations (restart t1 t2 g) = [] \<and>
   stats (restart t1 t2 g) = stats (GameManager_new t1' t2' t0') \<and>
   lifeDurations (restart t1 t2 g) = lifeDurations (GameManager_new t1' t2' t0') \<and>
   b_position (bot (restart t1 t2 g)) = botSpawn g \<and>
   p_position (player (restart t1 t2 g)) = (playerSpawn g)\<lparr>vy := 1.8\<rparr>"
  by (simp add: restart_def GameManager_new_def player_respawn_def bot_respawn_def
      notifyStateChange_def Let_def zero_stats_def)

text \<open>Witness for C8: a restart of a freshly constructed controller.\<close>

theorem restart_resets_match_witness:
  "p_position (player (restart 5 5 (GameManager_new 0 0 0))) = Vec (- 13) 1.8 0 \<and>
   b_position (bot (restart 5 5 (GameManager_new 0 0 0))) = Vec 13 2 0 \<and>
   state (restart 5 5 (GameManager_new 0 0 0)) = Waiting"
  using restart_resets_match [of 5 5 "GameManager_new 0 0 0" 0 0 0]
  by (simp add: GameManager_new_def scene_playerSpawn_def scene_botSpawn_def Vec_def ARENA_SIZE_def)

lemma accuracy_range:
  "h \<le> f \<Longrightarrow> 0 < f \<Longrightarrow> 0 \<le> real h / real f * 100 \<and> real h / real f * 100 \<le> 100"
  by (simp add: divide_le_eq)

lemma updateStats_consistent:
  "shots_consistent g \<Longrightarrow> shots_consistent (updateStats g)"
  using accuracy_range [of "playerShotsHit g" "playerShotsFired g"]
        accuracy_range [of "botShotsHit g" "botShotsFired g"]
  by (simp add: shots_consistent_def updateStats_def)

lemma notifyStateChange_shots:
  "shots_consistent (notifyStateChange g) = shots_consistent g"
  by (simp add: shots_consistent_def notifyStateChange_def)

lemma handleBotDeath_shots: "shots_consistent (handleBotDeath g) = shots_consistent g"
  by (simp add: handleBotDeath_def startRespawn_def notifyStateChange_def shots_consistent_def)

lemma handlePlayerDeath_shots:
  "shots_consistent (handlePlayerDeath t g) = shots_consistent g"
  by (simp add: handlePlayerDeath_def startRespawn_def notifyStateChange_def shots_consistent_def)

lemma player_onHit_shots:
  "playerShotsHit g < playerShotsFired g \<Longrightarrow> shots_consistent g \<Longrightarrow>
   shots_consistent (player_onHit hs g)"
  by (simp add: player_onHit_def shots_consistent_def Let_def)

lemma playerFire_shots:
  assumes "shots_consistent g"
  shows "shots_consistent (playerFire inp g)"
proof -
  define g1 where "g1 = g\<lparr>playerShotsFired := playerShotsFired g + 1,
                    stats := (stats g)\<lparr>shotsFired := shotsFired (stats g) + 1\<rparr>\<rparr>"
  define r where "r = fire (t_playerFireCheck inp) (t_playerFireRecord inp) (pickWithRay inp)
                  (p_position (player g1)) (playerForward inp)
                  (Some (bot_damageable (bot g1))) True (playerWeapon g1)"
  define g2 where "g2 = g1\<lparr>playerWeapon := fr_weapon r,
                     bot := (case fr_target r of
                               None \<Rightarrow> bot g1
                             | Some d \<Rightarrow> (bot g1)\<lparr>b_health := d_health d\<rparr>)\<rparr>"
  define g3 where "g3 = (if Death \<in> set (fr_events r) then handleBotDeath g2 else g2)"
  have res: "playerFire inp g =
       (case fr_onHit r of None \<Rightarrow> g3 | Some isHeadshot \<Rightarrow> player_onHit isHeadshot g3)"
    by (simp only: playerFire_def Let_def g1_def r_def g2_def g3_def)
  have c2: "shots_consistent g2" "playerShotsHit g2 < playerShotsFired g2"
    using assms by (simp_all add: g2_def g1_def shots_consistent_def)
  then have c3: "shots_consistent g3" "playerShotsHit g3 < playerShotsFired g3"
    by (simp_all add: g3_def handleBotDeath_shots)
       (simp add: handleBotDeath_def startRespawn_def notifyStateChange_def)
  then show ?thesis
    by (simp add: res player_onHit_shots split: option.splits)
qed

lemma playerShoot_shots:
  "shots_consistent g \<Longrightarrow> shots_consistent (fst (playerShoot inp g))"
  by (simp add: playerShoot_def playerFire_shots)

lemma botFire_shots:
  assumes "shots_consistent g"
  shows "shots_consistent (botFire inp g)"
proof -
  define g1 where "g1 = g\<lparr>botShotsFired := botShotsFired g + 1\<rparr>"
  define r where "r = fire (t_botFireCheck inp) (t_botFireRecord inp) (pickWithRay inp)
                    (b_position (bot g1)) (botShootDirection inp)
                    (Some (player_damageable (player g1))) True (botWeapon g1)"
  define g2 where "g2 = g1\<lparr>botWeapon := fr_weapon r,
                       player := (case fr_target r of
                                    None \<Rightarrow> player g1
                                  | Some d \<Rightarrow> (player g1)\<lparr>p_health := d_health d\<rparr>)\<rparr>"
  define g3 where "g3 = (if Death \<in> set (fr_events r)
                    then handlePlayerDeath (t_playerDeath inp)
                           (g2\<lparr>player := (player g2)\<lparr>p_isDead := True, canControl := False\<rparr>\<rparr>)
                    else g2)"
  have res: "botFire inp g =
       (case fr_onHit r of None \<Rightarrow> g3 | Some isHeadshot \<Rightarrow> bot_onHit g3)"
    by (simp only: botFire_def Let_def g1_def r_def g2_def g3_def)
  have c2: "shots_consistent g2" "botShotsHit g2 < botShotsFired g2"
    using assms by (simp_all add: g2_def g1_def shots_consistent_def)
  then have c3: "shots_consistent g3" "botShotsHit g3 < botShotsFired g3"
    by (simp_all add: g3_def handlePlayerDeath_shots)
       (simp_all add: handlePlayerDeath_def startRespawn_def notifyStateChange_def shots_consistent_def)
  then show ?thesis
    by (simp add: res split: option.splits) (simp add: bot_onHit_def shots_consistent_def)
qed

lemma botShoot_shots:
  "shots_consistent g \<Longrightarrow> shots_consistent (fst (botShoot inp g))"
  by (simp add: botShoot_def Let_def botFire_shots)

lemma endMatch_shots: "shots_consistent g \<Longrightarrow> shots_consistent (endMatch g)"
proof -
  assume a: "shots_consistent g"
  have "shots_consistent (g\<lparr>state := MatchEnded, player := (player g)\<lparr>canControl := False\<rparr>\<rparr>)"
    using a by (simp add: shots_consistent_def)
  then show ?thesis
    unfolding endMatch_def by (simp only: notifyStateChange_shots updateStats_consistent)
qed

lemma win_at_iff: "win_at (dateNow inp) g = win_condition (updateMatchTimer inp g)"
  by (simp add: win_at_def win_condition_def updateMatchTimer_def Let_def)

lemma playing_tick_win:
  "win_at (dateNow inp) g \<Longrightarrow>
   playing_tick inp g = ((endMatch (updateMatchTimer inp g))\<lparr>loopScheduled := False\<rparr>, [])"
  unfolding win_at_iff win_condition_def playing_tick_def Let_def by auto

lemma playing_tick_play:
  "\<not> win_at (dateNow inp) g \<Longrightarrow>
   playing_tick inp g = combat_tick inp (updateMatchTimer inp g)"
  unfolding win_at_iff win_condition_def playing_tick_def Let_def by auto

lemma combat_tick_fst:
  "fst (combat_tick inp g) =
     updateStats (fst (botShoot inp (fst (playerShoot inp (updateEntities inp g)))))"
  by (simp add: combat_tick_def Let_def split_beta)

lemma combat_tick_snd:
  "snd (combat_tick inp g) =
     [PlayerUpdate, BotUpdate] @ snd (playerShoot inp (updateEntities inp g))
       @ snd (botShoot inp (fst (playerShoot inp (updateEntities inp g))))"
  by (simp add: combat_tick_def Let_def split_beta)

lemma playing_tick_shots:
  assumes "shots_consistent g"
  shows "shots_consistent (fst (playing_tick inp g))"
proof -
  have c1: "shots_consistent (updateMatchTimer inp g)"
    using assms by (simp add: updateMatchTimer_def shots_consistent_def)
  show ?thesis
  proof (cases "win_at (dateNow inp) g")
    case True
    have "shots_consistent ((endMatch (updateMatchTimer inp g))\<lparr>loopScheduled := False\<rparr>)
                   = shots_consistent (endMatch (updateMatchTimer inp g))"
      by (simp add: shots_consistent_def)
    then show ?thesis using c1 by (simp add: playing_tick_win [OF True] endMatch_shots)
  next
    case False
    have "shots_consistent (updateEntities inp (updateMatchTimer inp g))"
      using c1 by (simp add: updateEntities_def shots_consistent_def)
    then show ?thesis
      by (simp add: playing_tick_play [OF False] combat_tick_fst updateStats_consistent
          botShoot_shots playerShoot_shots)
  qed
qed

lemma respawning_tick_shots:
  "shots_consistent g \<Longrightarrow> shots_consistent (respawning_tick inp dt g)"
  by (simp add: respawning_tick_def Let_def notifyStateChange_shots
        split: option.splits Entity.splits)
     (simp add: shots_consistent_def player_respawn_def bot_respawn_def)

lemma loop_shots:
  assumes "shots_consistent g"
  shows "shots_consistent (fst (loop inp g))"
proof -
  have c0: "shots_consistent (g\<lparr>lastTime := currentTime inp\<rparr>)"
    using assms by (simp add: shots_consistent_def)
  have p: "shots_consistent (pause h)" if "shots_consistent h" for h
    using that by (simp add: pause_def notifyStateChange_def shots_consistent_def)
  have u: "shots_consistent (unpause b h)" if "shots_consistent h" for h b
    using that by (simp add: unpause_def notifyStateChange_def shots_consistent_def)
  show ?thesis
    using c0 p u
    by (simp add: loop_def Let_def playing_tick_shots respawning_tick_shots
        split: GameState.splits)
qed

lemma app_step_shots:
  assumes "shots_consistent g"
  shows "shots_consistent (fst (app_step g e))"
proof (cases e)
  case (ClickStart b t1 t2 t3)
  then show ?thesis
    using assms by (simp add: startGame_def notifyStateChange_def shots_consistent_def)
next
  case (AnimationFrame inp)
  then show ?thesis using assms by (simp add: frame_def loop_shots)
next
  case (CanvasClick b)
  then show ?thesis
    using assms by (simp add: unpause_def notifyStateChange_def shots_consistent_def)
next
  case (ClickRestart t1 t2)
  have "shots_consistent (restart t1 t2 g)"
    by (simp add: restart_def Let_def notifyStateChange_def shots_consistent_def
        player_respawn_def bot_respawn_def zero_stats_def)
  then show ?thesis using assms ClickRestart by simp
qed

lemma app_run_shots:
  "shots_consistent g \<Longrightarrow> shots_consistent (app_run g evs)"
  by (induction evs arbitrary: g) (simp_all add: app_step_shots)

text \<open>
  C10: in every state the application can reach from the constructor, by any
  sequence of clicks and animation frames, each side's hit count is at most its
  shots-fired count and the computed player and bot accuracies lie in [0, 100]; and
  \<open>updateStats\<close> reports the accuracy 0 for a side that has fired no shot (the
  division is not made).
\<close>

theorem hits_never_exceed_shots:
  "shots_consistent (app_run (GameManager_new t1 t2 t0) evs) \<and>
   (playerShotsFired g = 0 \<longrightarrow> playerAccuracy (stats (updateStats g)) = 0) \<and>
   (botShotsFired g = 0 \<longrightarrow> botAccuracy (stats (updateStats g)) = 0)"
proof -
  have "shots_consistent (GameManager_new t1 t2 t0)"
    by (simp add: GameManager_new_def shots_consistent_def zero_stats_def)
  then show ?thesis
    by (simp add: app_run_shots) (simp add: updateStats_def)
qed

text \<open>Witness for C10: a started match, and the statistics of a new controller.\<close>

theorem hits_never_exceed_shots_witness:
  "shots_consistent (app_run (GameManager_new 0 0 0) [ClickStart True 1000 1000 1000]) \<and>
   playerAccuracy (stats (updateStats (GameManager_new 0 0 0))) = 0 \<and>
   botAccuracy (stats (updateStats (GameManager_new 0 0 0))) = 0"
proof -
  have "playerShotsFired (GameManager_new 0 0 0) = 0" "botShotsFired (GameManager_new 0 0 0) = 0"
    by (simp_all add: GameManager_new_def)
  then show ?thesis
    using hits_never_exceed_shots [of 0 0 0 "[ClickStart True 1000 1000 1000]" "GameManager_new 0 0 0"]
    by blast
qed

lemma botShoot_actions:
  "snd (botShoot inp g) =
     (if canFire (t_botCanFire inp) (botWeapon g) \<and>
         \<not> isDead (b_health (bot g)) \<and> \<not> isDead (p_health (player g)) \<and>
         (dateNow inp - gameStartTime g) / 1000 \<ge> 2 \<and>
         v_length (v_subtract (b_position (bot g)) (p_position (player g))) \<le> BOT_CHASE_DISTANCE
      then [BotFire] else [])"
  by (simp add: botShoot_def Let_def)

lemma playerShoot_actions:
  "snd (playerShoot inp g) = [] \<or> snd (playerShoot inp g) = [PlayerFire]"
  by (simp add: playerShoot_def)

lemma playerFire_gameStartTime: "gameStartTime (playerFire inp g) = gameStartTime g"
  by (simp add: playerFire_def Let_def player_onHit_def handleBotDeath_def startRespawn_def
      notifyStateChange_def split: option.splits)

lemma playerShoot_gameStartTime: "gameStartTime (fst (playerShoot inp g)) = gameStartTime g"
  by (simp add: playerShoot_def playerFire_gameStartTime)

lemma botFire_gameStartTime: "gameStartTime (botFire inp g) = gameStartTime g"
  by (simp add: botFire_def Let_def bot_onHit_def handlePlayerDeath_def startRespawn_def
      notifyStateChange_def split: option.splits)

lemma botShoot_gameStartTime: "gameStartTime (fst (botShoot inp g)) = gameStartTime g"
  by (simp add: botShoot_def Let_def botFire_gameStartTime)

lemma updateEntities_gameStartTime: "gameStartTime (updateEntities inp g) = gameStartTime g"
  by (simp add: updateEntities_def Let_def)

lemma updateMatchTimer_gameStartTime: "gameStartTime (updateMatchTimer inp g) = gameStartTime g"
  by (simp add: updateMatchTimer_def Let_def)

lemma playing_tick_gameStartTime: "gameStartTime (fst (playing_tick inp g)) = gameStartTime g"
proof (cases "win_at (dateNow inp) g")
  case True
  then show ?thesis
    by (simp add: playing_tick_win endMatch_def updateStats_def notifyStateChange_def
        updateMatchTimer_def Let_def)
next
  case False
  then show ?thesis
    by (simp add: playing_tick_play combat_tick_fst updateStats_def botShoot_gameStartTime
        playerShoot_gameStartTime updateEntities_gameStartTime updateMatchTimer_gameStartTime)
qed

lemma respawning_tick_gameStartTime:
  "gameStartTime (respawning_tick inp dt g) = gameStartTime g"
  by (simp add: respawning_tick_def Let_def notifyStateChange_def player_respawn_def
      bot_respawn_def split: option.splits Entity.splits)

lemma loop_gameStartTime: "gameStartTime (fst (loop inp g)) = gameStartTime g"
  by (simp add: loop_def Let_def pause_def unpause_def notifyStateChange_def
      playing_tick_gameStartTime respawning_tick_gameStartTime split: GameState.splits)

lemma restart_gameStartTime: "gameStartTime (restart t1 t2 g) = gameStartTime g"
  by (simp add: restart_def Let_def notifyStateChange_def player_respawn_def bot_respawn_def)

lemma loop_actions:
  "snd (loop inp g) =
     (if state g = Playing \<and> \<not> escapePressed inp \<and> \<not> win_at (dateNow inp) g
      then snd (combat_tick inp (updateMatchTimer inp (g\<lparr>lastTime := currentTime inp\<rparr>)))
      else [])"
proof -
  have w: "win_at (dateNow inp) (g\<lparr>lastTime := currentTime inp\<rparr>) = win_at (dateNow inp) g"
    by (simp add: win_at_def)
  show ?thesis
  proof (cases "win_at (dateNow inp) g")
    case True
    then show ?thesis
      using w by (simp add: loop_def Let_def playing_tick_win split: GameState.splits)
  next
    case False
    then show ?thesis
      using w by (simp add: loop_def Let_def playing_tick_play split: GameState.splits)
  qed
qed

lemma loop_BotFire:
  assumes "BotFire \<in> set (snd (loop inp g))"
  shows "state g = Playing \<and>
         BotFire \<in> set (snd (botShoot inp (fst (playerShoot inp
            (updateEntities inp (updateMatchTimer inp (g\<lparr>lastTime := currentTime inp\<rparr>)))))))"
proof -
  let ?g1 = "updateEntities inp (updateMatchTimer inp (g\<lparr>lastTime := currentTime inp\<rparr>))"
  have c: "state g = Playing \<and> \<not> escapePressed inp \<and> \<not> win_at (dateNow inp) g"
    using assms by (simp add: loop_actions split: if_splits)
  then have "BotFire \<in> set ([PlayerUpdate, BotUpdate] @ snd (playerShoot inp ?g1)
       @ snd (botShoot inp (fst (playerShoot inp ?g1))))"
    using assms by (simp add: loop_actions combat_tick_snd)
  moreover have "BotFire \<notin> set (snd (playerShoot inp ?g1))"
    using playerShoot_actions [of inp ?g1] by auto
  ultimately show ?thesis using c by simp
qed

lemma sqrt100: "sqrt 100 = 10"
  by (rule real_sqrt_unique) simp_all

text \<open>
  C9: the loop's bot-shot block issues a bot fire attempt exactly when the bot's
  weapon can fire, the bot and the player are both alive, at least 2 seconds have
  passed between the match start time and the frame's clock, and the distance from the
  bot to the player is at most 20. Whatever happens to the application, a bot fire
  attempt is made only in an animation frame, in the state \<open>playing\<close>, with the
  frame's clock at least 2000 ms after the match start time, and by that block, run
  after the entity updates and the player's shot. The match start time is the clock
  \<open>startGame\<close> records when it starts the match, and nothing but a click on
  Start changes it.
\<close>

theorem bot_fire_gated:
  "(BotFire \<in> set (snd (botShoot inp g)) \<longleftrightarrow>
      canFire (t_botCanFire inp) (botWeapon g) \<and>
      \<not> isDead (b_health (bot g)) \<and> \<not> isDead (p_health (player g)) \<and>
      (dateNow inp - gameStartTime g) / 1000 \<ge> 2 \<and>
      v_length (v_subtract (b_position (bot g)) (p_position (player g))) \<le> 20) \<and>
   (BotFire \<in> set (snd (app_step g e)) \<longrightarrow>
      (\<exists>inp. e = AnimationFrame inp \<and> state g = Playing \<and>
         dateNow inp - gameStartTime g \<ge> 2000 \<and>
         BotFire \<in> set (snd (botShoot inp (fst (playerShoot inp
            (updateEntities inp (updateMatchTimer inp (g\<lparr>lastTime := currentTime inp\<rparr>))))))))) \<and>
   (state g = Waiting \<longrightarrow> gameStartTime (startGame True t1 t2 t3 g) = t3) \<and>
   ((\<forall>granted t1 t2 t3. e \<noteq> ClickStart granted t1 t2 t3) \<longrightarrow>
      gameStartTime (fst (app_step g e)) = gameStartTime g)"
proof (intro conjI impI)
  show "BotFire \<in> set (snd (botShoot inp g)) \<longleftrightarrow>
      canFire (t_botCanFire inp) (botWeapon g) \<and>
      \<not> isDead (b_health (bot g)) \<and> \<not> isDead (p_health (player g)) \<and>
      (dateNow inp - gameStartTime g) / 1000 \<ge> 2 \<and>
      v_length (v_subtract (b_position (bot g)) (p_position (player g))) \<le> 20"
    by (simp add: botShoot_actions BOT_CHASE_DISTANCE_def)
next
  assume a: "BotFire \<in> set (snd (app_step g e))"
  then obtain inp where e: "e = AnimationFrame inp"
    by (cases e) simp_all
  then have l: "BotFire \<in> set (snd (loop inp g))"
    using a by (simp add: frame_def split: if_splits)
  let ?g2 = "fst (playerShoot inp
            (updateEntities inp (updateMatchTimer inp (g\<lparr>lastTime := currentTime inp\<rparr>))))"
  from loop_BotFire [OF l] have s: "state g = Playing" and b: "BotFire \<in> set (snd (botShoot inp ?g2))"
    by simp_all
  have "gameStartTime ?g2 = gameStartTime g"
    by (simp add: playerShoot_gameStartTime updateEntities_gameStartTime
        updateMatchTimer_gameStartTime)
  then have "dateNow inp - gameStartTime g \<ge> 2000"
    using b by (simp add: botShoot_actions split: if_splits)
  then show "\<exists>inp. e = AnimationFrame inp \<and> state g = Playing \<and>
         dateNow inp - gameStartTime g \<ge> 2000 \<and>
         BotFire \<in> set (snd (botShoot inp (fst (playerShoot inp
            (updateEntities inp (updateMatchTimer inp (g\<lparr>lastTime := currentTime inp\<rparr>)))))))"
    using e s b by blast
next
  assume "state g = Waiting"
  then show "gameStartTime (startGame True t1 t2 t3 g) = t3"
    by (simp add: startGame_def notifyStateChange_def)
next
  assume a: "\<forall>granted t1 t2 t3. e \<noteq> ClickStart granted t1 t2 t3"
  show "gameStartTime (fst (app_step g e)) = gameStartTime g"
  proof (cases e)
    case (ClickStart granted t1 t2 t3)
    then show ?thesis using a by blast
  next
    case (AnimationFrame inp)
    then show ?thesis by (simp add: frame_def loop_gameStartTime)
  next
    case (CanvasClick granted)
    then show ?thesis by (simp add: unpause_def notifyStateChange_def)
  next
    case (ClickRestart t1 t2)
    then show ?thesis by (simp add: restart_gameStartTime)
  qed
qed

text \<open>
  Witness for C9: in a match started at 1000, no bot fire at 2500; with the bot 10
  units from the player, a bot fire at 5000.
\<close>

theorem bot_fire_gated_witness:
  "BotFire \<notin> set (snd (botShoot
      (quiet_frame 2516 2500 (player (GameManager_new 0 0 0)) (bot (GameManager_new 0 0 0)))
      (startGame True 1000 1000 1000 (GameManager_new 0 0 0)))) \<and>
   BotFire \<in> set (snd (botShoot
      (quiet_frame 5016 5000 (player (GameManager_new 0 0 0)) (bot (GameManager_new 0 0 0)))
      ((startGame True 1000 1000 1000 (GameManager_new 0 0 0))
         \<lparr>bot := (bot (GameManager_new 0 0 0))\<lparr>b_position := Vec (- 3) 1.8 0\<rparr>\<rparr>))) \<and>
   gameStartTime (startGame True 1000 1000 1000 (GameManager_new 0 0 0)) = 1000"
proof -
  let ?init = "GameManager_new 0 0 0"
  let ?g = "startGame True 1000 1000 1000 ?init"
  let ?g' = "?g\<lparr>bot := (bot ?init)\<lparr>b_position := Vec (- 3) 1.8 0\<rparr>\<rparr>"
  let ?early = "quiet_frame 2516 2500 (player ?init) (bot ?init)"
  let ?late = "quiet_frame 5016 5000 (player ?init) (bot ?init)"
  have 1: "\<not> (dateNow ?early - gameStartTime ?g) / 1000 \<ge> 2"
    by (simp add: startGame_def GameManager_new_def notifyStateChange_def quiet_frame_def)
  have 2: "canFire (t_botCanFire ?late) (botWeapon ?g') \<and>
      \<not> isDead (b_health (bot ?g')) \<and> \<not> isDead (p_health (player ?g')) \<and>
      (dateNow ?late - gameStartTime ?g') / 1000 \<ge> 2"
    by (simp add: startGame_def notifyStateChange_def quiet_frame_def GameManager_new_def canFire_def
        Weapon_new_def FIRE_INTERVAL_def isDead_def Health_new_def MAX_HEALTH_def)
  have 3: "v_length (v_subtract (b_position (bot ?g')) (p_position (player ?g'))) \<le> 20"
    by (simp add: startGame_def notifyStateChange_def GameManager_new_def v_length_def v_subtract_def
        Vec_def scene_playerSpawn_def ARENA_SIZE_def sqrt100)
  have 4: "state ?init = Waiting" by (simp add: GameManager_new_def)
  show ?thesis
    using bot_fire_gated [of ?early ?g "ClickRestart 0 0" 1000 1000 1000]
          bot_fire_gated [of ?late ?g' "ClickRestart 0 0" 1000 1000 1000]
          bot_fire_gated [of ?early ?init "ClickRestart 0 0" 1000 1000 1000] 1 2 3 4
    by blast
qed

lemma notified_after_notify: "notified_in_step (notifyStateChange g)"
  by (simp add: notified_in_step_def notifyStateChange_def)

lemma state_notify [simp]: "state (notifyStateChange g) = state g"
  by (simp add: notifyStateChange_def)

lemma handleBotDeath_state:
  "state (handleBotDeath g) = Respawning" "notified_in_step (handleBotDeath g)"
  by (simp_all add: handleBotDeath_def startRespawn_def notified_after_notify)

lemma handlePlayerDeath_state:
  "state (handlePlayerDeath t g) = Respawning" "notified_in_step (handlePlayerDeath t g)"
  by (simp_all add: handlePlayerDeath_def startRespawn_def notified_after_notify)

lemma player_onHit_state:
  "state (player_onHit hs g) = state g" "stateChangeLog (player_onHit hs g) = stateChangeLog g"
  by (simp_all add: player_onHit_def Let_def)

lemma bot_onHit_state:
  "state (bot_onHit g) = state g" "stateChangeLog (bot_onHit g) = stateChangeLog g"
  by (simp_all add: bot_onHit_def)

lemma playerFire_state:
  "(state (playerFire inp g) = state g \<or> state (playerFire inp g) = Respawning) \<and>
   (notified_in_step g \<longrightarrow> notified_in_step (playerFire inp g))"
proof -
  define g1 where "g1 = g\<lparr>playerShotsFired := playerShotsFired g + 1,
                    stats := (stats g)\<lparr>shotsFired := shotsFired (stats g) + 1\<rparr>\<rparr>"
  define r where "r = fire (t_playerFireCheck inp) (t_playerFireRecord inp) (pickWithRay inp)
                  (p_position (player g1)) (playerForward inp)
                  (Some (bot_damageable (bot g1))) True (playerWeapon g1)"
  define g2 where "g2 = g1\<lparr>playerWeapon := fr_weapon r,
                     bot := (case fr_target r of
                               None \<Rightarrow> bot g1
                             | Some d \<Rightarrow> (bot g1)\<lparr>b_health := d_health d\<rparr>)\<rparr>"
  define g3 where "g3 = (if Death \<in> set (fr_events r) then handleBotDeath g2 else g2)"
  have res: "playerFire inp g =
       (case fr_onHit r of None \<Rightarrow> g3 | Some isHeadshot \<Rightarrow> player_onHit isHeadshot g3)"
    by (simp only: playerFire_def Let_def g1_def r_def g2_def g3_def)
  have s2: "state g2 = state g" "notified_in_step g2 = notified_in_step g"
    by (simp_all add: g2_def g1_def notified_in_step_def)
  have s3: "(state g3 = state g \<or> state g3 = Respawning) \<and>
            (notified_in_step g \<longrightarrow> notified_in_step g3)"
    using s2 by (simp add: g3_def handleBotDeath_state)
  have "state (playerFire inp g) = state g3"
       "notified_in_step (playerFire inp g) = notified_in_step g3"
    by (simp_all add: res player_onHit_state notified_in_step_def split: option.splits)
  then show ?thesis using s3 by simp
qed

lemma botFire_state:
  "(state (botFire inp g) = state g \<or> state (botFire inp g) = Respawning) \<and>
   (notified_in_step g \<longrightarrow> notified_in_step (botFire inp g))"
proof -
  define g1 where "g1 = g\<lparr>botShotsFired := botShotsFired g + 1\<rparr>"
  define r where "r = fire (t_botFireCheck inp) (t_botFireRecord inp) (pickWithRay inp)
                    (b_position (bot g1)) (botShootDirection inp)
                    (Some (player_damageable (player g1))) True (botWeapon g1)"
  define g2 where "g2 = g1\<lparr>botWeapon := fr_weapon r,
                       player := (case fr_target r of
                                    None \<Rightarrow> player g1
                                  | Some d \<Rightarrow> (player g1)\<lparr>p_health := d_health d\<rparr>)\<rparr>"
  define g3 where "g3 = (if Death \<in> set (fr_events r)
                    then handlePlayerDeath (t_playerDeath inp)
                           (g2\<lparr>player := (player g2)\<lparr>p_isDead := True, canControl := False\<rparr>\<rparr>)
                    else g2)"
  have res: "botFire inp g =
       (case fr_onHit r of None \<Rightarrow> g3 | Some isHeadshot \<Rightarrow> bot_onHit g3)"
    by (simp only: botFire_def Let_def g1_def r_def g2_def g3_def)
  have s2: "state g2 = state g" "notified_in_step g2 = notified_in_step g"
    by (simp_all add: g2_def g1_def notified_in_step_def)
  have s3: "(state g3 = state g \<or> state g3 = Respawning) \<and>
            (notified_in_step g \<longrightarrow> notified_in_step g3)"
    using s2 by (simp add: g3_def handlePlayerDeath_state)
  have "state (botFire inp g) = state g3"
       "notified_in_step (botFire inp g) = notified_in_step g3"
    by (simp_all add: res bot_onHit_state notified_in_step_def split: option.splits)
  then show ?thesis using s3 by simp
qed

lemma playerShoot_state:
  "(state (fst (playerShoot inp g)) = state g \<or> state (fst (playerShoot inp g)) = Respawning) \<and>
   (notified_in_step g \<longrightarrow> notified_in_step (fst (playerShoot inp g)))"
  using playerFire_state [of inp g] by (simp add: playerShoot_def)

lemma botShoot_state:
  "(state (fst (botShoot inp g)) = state g \<or> state (fst (botShoot inp g)) = Respawning) \<and>
   (notified_in_step g \<longrightarrow> notified_in_step (fst (botShoot inp g)))"
  using botFire_state [of inp g] by (simp add: botShoot_def Let_def)

lemma updateStats_state:
  "state (updateStats g) = state g" "stateChangeLog (updateStats g) = stateChangeLog g"
  by (simp_all add: updateStats_def)

lemma updateEntities_state:
  "state (updateEntities inp g) = state g"
  "stateChangeLog (updateEntities inp g) = stateChangeLog g"
  by (simp_all add: updateEntities_def Let_def)

lemma updateMatchTimer_state:
  "state (updateMatchTimer inp g) = state g"
  "stateChangeLog (updateMatchTimer inp g) = stateChangeLog g"
  by (simp_all add: updateMatchTimer_def Let_def)

lemma combat_tick_state:
  "(state (fst (combat_tick inp g)) = state g \<or> state (fst (combat_tick inp g)) = Respawning) \<and>
   (notified_in_step g \<longrightarrow> notified_in_step (fst (combat_tick inp g)))"
proof -
  let ?g1 = "updateEntities inp g"
  let ?g2 = "fst (playerShoot inp ?g1)"
  let ?g3 = "fst (botShoot inp ?g2)"
  have 1: "state ?g1 = state g" "notified_in_step ?g1 = notified_in_step g"
    by (simp_all add: updateEntities_state notified_in_step_def)
  have 4: "state (fst (combat_tick inp g)) = state ?g3"
    "notified_in_step (fst (combat_tick inp g)) = notified_in_step ?g3"
    by (simp_all add: combat_tick_fst updateStats_state notified_in_step_def)
  have 2: "(state ?g2 = state g \<or> state ?g2 = Respawning) \<and>
           (notified_in_step g \<longrightarrow> notified_in_step ?g2)"
    using 1 playerShoot_state [of inp ?g1] by simp
  have 3: "(state ?g3 = state g \<or> state ?g3 = Respawning) \<and>
           (notified_in_step g \<longrightarrow> notified_in_step ?g3)"
    using 2 botShoot_state [of inp ?g2] by auto
  show ?thesis
    unfolding 4 by (rule 3)
qed

lemma endMatch_state:
  "state (endMatch g) = MatchEnded" "notified_in_step (endMatch g)"
  by (simp_all add: endMatch_def notified_after_notify updateStats_state)

lemma playing_tick_state:
  assumes "state g = Playing"
  shows "(state (fst (playing_tick inp g)) = Playing \<or>
          state (fst (playing_tick inp g)) = Respawning \<or>
          state (fst (playing_tick inp g)) = MatchEnded) \<and>
         (notified_in_step g \<longrightarrow> notified_in_step (fst (playing_tick inp g)))"
proof (cases "win_at (dateNow inp) g")
  case True
  have "notified_in_step ((endMatch h)\<lparr>loopScheduled := False\<rparr>)" for h
    using endMatch_state(2) [of h] by (simp add: notified_in_step_def)
  then show ?thesis
    by (simp add: playing_tick_win [OF True] endMatch_state)
next
  case False
  have "state (updateMatchTimer inp g) = Playing"
    "notified_in_step (updateMatchTimer inp g) = notified_in_step g"
    using assms by (simp_all add: updateMatchTimer_state notified_in_step_def)
  then show ?thesis
    using combat_tick_state [of inp "updateMatchTimer inp g"]
    by (auto simp add: playing_tick_play [OF False])
qed

lemma respawning_tick_state:
  assumes "state g = Respawning"
  shows "(state (respawning_tick inp dt g) = Respawning \<or>
          state (respawning_tick inp dt g) = Playing) \<and>
         (notified_in_step g \<longrightarrow> notified_in_step (respawning_tick inp dt g))"
proof (cases "respawnTimer g - dt \<le> 0")
  case True
  then show ?thesis
    by (simp add: respawning_tick_def Let_def notified_after_notify)
next
  case False
  then show ?thesis
    using assms by (simp add: respawning_tick_def Let_def notified_in_step_def)
qed

lemma pause_state: "state (pause g) = Paused" "notified_in_step (pause g)"
  by (simp_all add: pause_def notified_after_notify)

lemma unpause_state:
  "(state (unpause b g) = state g \<or> state g = Paused \<and> state (unpause b g) = Playing) \<and>
   (notified_in_step g \<longrightarrow> notified_in_step (unpause b g))"
  by (simp add: unpause_def notified_after_notify)

lemma startGame_state:
  "(state (startGame b t1 t2 t3 g) = state g \<or>
    state g = Waiting \<and> state (startGame b t1 t2 t3 g) = Playing) \<and>
   (notified_in_step g \<longrightarrow> notified_in_step (startGame b t1 t2 t3 g))"
  by (simp add: startGame_def notified_after_notify)

lemma restart_state: "state (restart t1 t2 g) = Waiting" "notified_in_step (restart t1 t2 g)"
  by (simp_all add: restart_def Let_def notified_after_notify player_respawn_def bot_respawn_def)

lemma loop_state:
  "(state (fst (loop inp g)) = state g \<or> listed_edge (state g) (state (fst (loop inp g)))) \<and>
   (state g = MatchEnded \<longrightarrow> state (fst (loop inp g)) = MatchEnded) \<and>
   (notified_in_step g \<longrightarrow> notified_in_step (fst (loop inp g)))"
proof -
  let ?g0 = "g\<lparr>lastTime := currentTime inp\<rparr>"
  have 0: "state ?g0 = state g" "notified_in_step ?g0 = notified_in_step g"
    by (simp_all add: notified_in_step_def)
  show ?thesis
  proof (cases "state g")
    case Waiting
    then show ?thesis using 0 by (simp add: loop_def Let_def)
  next
    case Playing
    show ?thesis
    proof (cases "escapePressed inp")
      case True
      then show ?thesis using Playing by (simp add: loop_def Let_def pause_state)
    next
      case False
      then show ?thesis
        using Playing 0 playing_tick_state [of ?g0 inp]
        by (auto simp add: loop_def Let_def)
    qed
  next
    case Respawning
    then show ?thesis
      using 0 respawning_tick_state [of ?g0 inp "min ((currentTime inp - lastTime g) / 1000) 0.1"]
      by (auto simp add: loop_def Let_def)
  next
    case MatchEnded
    then show ?thesis using 0 by (simp add: loop_def Let_def)
  next
    case Paused
    then show ?thesis
      using 0 unpause_state [of "lockGranted inp" ?g0]
      by (auto simp add: loop_def Let_def)
  qed
qed

lemma EndScreen_visible_state:
  "notified_in_step g \<Longrightarrow> EndScreen_visible g \<Longrightarrow> state g = MatchEnded"
  by (simp add: notified_in_step_def EndScreen_visible_def split: if_splits)

lemma app_step_state:
  assumes "notified_in_step g"
  shows "(state (fst (app_step g e)) = state g \<or>
          listed_edge (state g) (state (fst (app_step g e)))) \<and>
         (state g = MatchEnded \<and> state (fst (app_step g e)) \<noteq> MatchEnded \<longrightarrow>
            (\<exists>a b. e = ClickRestart a b)) \<and>
         notified_in_step (fst (app_step g e))"
proof (cases e)
  case (ClickStart b t1 t2 t3)
  then show ?thesis
    using assms startGame_state [of b t1 t2 t3 g] by auto
next
  case (AnimationFrame inp)
  then show ?thesis
    using assms loop_state [of inp g] by (simp add: frame_def)
next
  case (CanvasClick b)
  then show ?thesis
    using assms unpause_state [of b g] by auto
next
  case (ClickRestart t1 t2)
  then show ?thesis
    using assms EndScreen_visible_state [of g] by (simp add: restart_state)
qed

lemma app_run_notified:
  "notified_in_step g \<Longrightarrow> notified_in_step (app_run g evs)"
  by (induction evs arbitrary: g) (simp_all add: app_step_state)












text \<open>
  C2, as stated, fails: \<open>restart\<close> is a public method that tests no state, so called
  while the match is being played it takes the state from playing to waiting, which
  is not one of the listed edges.
\<close>

theorem restart_from_playing_counterexample:
  "state (startGame True 1000 1000 1000 (GameManager_new 0 0 0)) = Playing \<and>
   state (fst (api_step (startGame True 1000 1000 1000 (GameManager_new 0 0 0))
                 (Restart 5000 5000))) = Waiting \<and>
   \<not> listed_edge Playing Waiting"
  by (simp add: startGame_def GameManager_new_def restart_state)

text \<open>
  C2 (amended): every call of \<open>startGame\<close> or \<open>unpause\<close> and every animation
  frame, in any state, leaves the match state as it is or changes it along one of the
  listed edges (waiting to playing, playing to paused, paused to playing, playing to
  respawning, respawning to playing, playing to matchEnded, matchEnded to waiting);
  \<open>restart\<close> sets the state to waiting from whatever state it is called in. In the
  application, where only the end screen's button calls \<open>restart\<close>, every state
  reachable from the constructor changes along the listed edges only, and matchEnded
  is left only by a click on Restart, for waiting. \<open>startGame\<close> in a state other
  than waiting, and \<open>unpause\<close> in a state other than paused, change nothing at all.
\<close>

theorem state_changes_along_edges:
  "(state (fst (api_step g c)) = state g \<or>
    listed_edge (state g) (state (fst (api_step g c))) \<or>
    (\<exists>a b. c = Restart a b) \<and> state (fst (api_step g c)) = Waiting) \<and>
   (let r = app_run (GameManager_new t1 t2 t0) evs; r' = fst (app_step r e) in
      (state r' = state r \<or> listed_edge (state r) (state r')) \<and>
      (state r = MatchEnded \<and> state r' \<noteq> MatchEnded \<longrightarrow>
         (\<exists>a b. e = ClickRestart a b) \<and> state r' = Waiting)) \<and>
   (state h \<noteq> Waiting \<longrightarrow> startGame granted a b c' h = h) \<and>
   (state h \<noteq> Paused \<longrightarrow> unpause granted h = h)"
proof -
  have api: "state (fst (api_step g c)) = state g \<or>
    listed_edge (state g) (state (fst (api_step g c))) \<or>
    (\<exists>a b. c = Restart a b) \<and> state (fst (api_step g c)) = Waiting"
  proof (cases c)
    case (StartGame b t1 t2 t3)
    then show ?thesis using startGame_state [of b t1 t2 t3 g] by auto
  next
    case (Frame inp)
    then show ?thesis using loop_state [of inp g] by (simp add: frame_def)
  next
    case (Unpause b)
    then show ?thesis using unpause_state [of b g] by auto
  next
    case (Restart t1 t2)
    then show ?thesis by (simp add: restart_state)
  qed
  have "notified_in_step (GameManager_new t1 t2 t0)"
    by (simp add: notified_in_step_def GameManager_new_def)
  then have n: "notified_in_step (app_run (GameManager_new t1 t2 t0) evs)"
    by (rule app_run_notified)
  have "listed_edge MatchEnded s \<Longrightarrow> s = Waiting" for s
    by (cases s) simp_all
  then have app: "(let r = app_run (GameManager_new t1 t2 t0) evs; r' = fst (app_step r e) in
      (state r' = state r \<or> listed_edge (state r) (state r')) \<and>
      (state r = MatchEnded \<and> state r' \<noteq> MatchEnded \<longrightarrow>
         (\<exists>a b. e = ClickRestart a b) \<and> state r' = Waiting))"
    using app_step_state [OF n, of e] by (auto simp add: Let_def)
  have noop: "(state h \<noteq> Waiting \<longrightarrow> startGame granted a b c' h = h) \<and>
   (state h \<noteq> Paused \<longrightarrow> unpause granted h = h)"
    by (simp add: startGame_def unpause_def)
  show ?thesis
    using api app noop by (intro conjI) simp_all
qed

text \<open>
  Witness for C2: \<open>startGame\<close> takes a new controller from waiting to playing;
  \<open>restart\<close> takes it from playing to waiting; a second \<open>startGame\<close> while
  playing, and an \<open>unpause\<close> of a new controller, do nothing.
\<close>

theorem state_changes_along_edges_witness:
  "listed_edge (state (GameManager_new 0 0 0))
     (state (fst (api_step (GameManager_new 0 0 0) (StartGame True 1000 1000 1000)))) \<and>
   state (fst (api_step (startGame True 1000 1000 1000 (GameManager_new 0 0 0))
                 (Restart 5000 5000))) = Waiting \<and>
   startGame True 5000 5000 5000 (startGame True 1000 1000 1000 (GameManager_new 0 0 0))
     = startGame True 1000 1000 1000 (GameManager_new 0 0 0) \<and>
   unpause True (GameManager_new 0 0 0) = GameManager_new 0 0 0"
proof -
  let ?init = "GameManager_new 0 0 0"
  let ?started = "startGame True 1000 1000 1000 ?init"
  have 1: "state ?init = Waiting" by (simp add: GameManager_new_def)
  have 2: "state ?started = Playing"
    by (simp add: startGame_def GameManager_new_def)
  show ?thesis
    using state_changes_along_edges [of ?init "StartGame True 1000 1000 1000" 0 0 0 "[]"
                  "ClickStart True 1000 1000 1000" ?started True 5000 5000 5000]
          state_changes_along_edges [of ?started "Restart 5000 5000" 0 0 0 "[]"
                  "ClickStart True 1000 1000 1000" ?init True 5000 5000 5000] 1 2
    by (simp add: Let_def restart_state)
qed




end
